theory Spec2Isabelle
  imports Main
begin

section \<open>JavaScript values held by the component\<close>

text \<open>
  The component stores whatever \<^verbatim>\<open>response.data\<close> is, so its state holds JavaScript
  values, not typed records. A value is what a parsed JSON body can be, plus
  \<^verbatim>\<open>undefined\<close>. Numbers are the integers (the counters of the statistics endpoint);
  an object is the list of its own properties, read with \<open>map_of\<close>.
\<close>

datatype jsval =
    JUndefined
  | JNull
  | JBool bool
  | JNum int
  | JStr string
  | JArr "jsval list"
  | JObj "(string \<times> jsval) list"

text \<open>
  What a render can fail with: a property read of \<^verbatim>\<open>null\<close> or \<^verbatim>\<open>undefined\<close>, and React's
  refusal of a child it cannot render.
\<close>

datatype error = TypeError | InvalidChild

text \<open>The truthiness test of \<^verbatim>\<open>c ? a : b\<close> and \<^verbatim>\<open>a || b\<close>.\<close>

fun truthy :: "jsval \<Rightarrow> bool" where
  "truthy JUndefined = False"
| "truthy JNull = False"
| "truthy (JBool b) = b"
| "truthy (JNum n) = (n \<noteq> 0)"
| "truthy (JStr s) = (s \<noteq> [])"
| "truthy (JArr xs) = True"
| "truthy (JObj kvs) = True"

fun nullish :: "jsval \<Rightarrow> bool" where
  "nullish JUndefined = True"
| "nullish JNull = True"
| "nullish v = False"

text \<open>
  \<^verbatim>\<open>v.k\<close> on a value that is neither \<^verbatim>\<open>null\<close> nor \<^verbatim>\<open>undefined\<close>: an own property
  of an object, and \<^verbatim>\<open>undefined\<close> otherwise. The component reads only the names
  \<^verbatim>\<open>totalExams\<close>, \<^verbatim>\<open>studentsAssigned\<close>, \<^verbatim>\<open>studentsAttended\<close>, \<^verbatim>\<open>universityName\<close>,
  \<^verbatim>\<open>universityEmail\<close>, \<^verbatim>\<open>universityLogo\<close> and \<^verbatim>\<open>secure_url\<close>, none of which a string, a
  number, a boolean or an array has.
\<close>

fun prop_value :: "jsval \<Rightarrow> string \<Rightarrow> jsval" where
  "prop_value (JObj kvs) k = (case map_of kvs k of Some v \<Rightarrow> v | None \<Rightarrow> JUndefined)"
| "prop_value v k = JUndefined"

text \<open>\<^verbatim>\<open>v.k\<close> in general: reading a property of \<^verbatim>\<open>null\<close> or \<^verbatim>\<open>undefined\<close> throws.\<close>

definition get_prop :: "jsval \<Rightarrow> string \<Rightarrow> error + jsval" where
  "get_prop v k = (if nullish v then Inl TypeError else Inr (prop_value v k))"

text \<open>\<^verbatim>\<open>v?.k\<close>: \<^verbatim>\<open>undefined\<close> instead of the exception.\<close>

definition get_prop_opt :: "jsval \<Rightarrow> string \<Rightarrow> jsval" where
  "get_prop_opt v k = (if nullish v then JUndefined else prop_value v k)"

text \<open>\<^verbatim>\<open>a || b\<close>.\<close>

definition js_or :: "jsval \<Rightarrow> jsval \<Rightarrow> jsval" where
  "js_or a b = (if truthy a then a else b)"

definition ebind :: "error + 'a \<Rightarrow> ('a \<Rightarrow> error + 'b) \<Rightarrow> error + 'b" where
  "ebind m f = (case m of Inl e \<Rightarrow> Inl e | Inr x \<Rightarrow> f x)"


section \<open>The state of the component and of its collaborators\<close>

text \<open>The four \<^verbatim>\<open>useState\<close> slices of \<^verbatim>\<open>UniversityDashboard\<close>.\<close>

record view_state =
  university :: jsval
  examStats :: jsval
  loading :: bool
  sidebarOpen :: bool

definition initial_state :: view_state where
  "initial_state =
     \<lparr> university = JNull,
       examStats = JObj [(''totalExams'', JNum 0),
                         (''studentsAssigned'', JNum 0),
                         (''studentsAttended'', JNum 0)],
       loading = False,
       sidebarOpen = False \<rparr>"

datatype toast_kind = TLoading | TSuccess | TError

text \<open>Every effect the component has on the outside, in the order it happens.\<close>

datatype event =
    SetUniversity jsval
  | SetExamStats jsval
  | SetLoading bool
  | SetSidebarOpen bool
  | Toast toast_kind string
  | ToastDismiss
  | HttpGet string
  | ConsoleError string jsval
  | RemoveItem string
  | Navigate string

text \<open>
  The world the handlers run in: the component's state, the toasts on screen, the
  browser's local storage, the router's current path, the requests in flight and the
  log of effects so far.
\<close>

record world =
  st :: view_state
  toasts :: "(toast_kind \<times> string) list"
  localStorage :: "string \<rightharpoonup> string"
  location :: string
  pending :: "string list"
  trace :: "event list"

definition initial_world :: "(string \<rightharpoonup> string) \<Rightarrow> string \<Rightarrow> world" where
  "initial_world store path =
     \<lparr> st = initial_state, toasts = [], localStorage = store, location = path,
       pending = [], trace = [] \<rparr>"

definition emit :: "event \<Rightarrow> world \<Rightarrow> world" where
  "emit e w = w\<lparr>trace := trace w @ [e]\<rparr>"

text \<open>The effects of \<open>w'\<close> that \<open>w\<close> had not seen yet.\<close>

definition emitted :: "world \<Rightarrow> world \<Rightarrow> event list" where
  "emitted w w' = drop (length (trace w)) (trace w')"

subsection \<open>State setters\<close>

definition setUniversity :: "jsval \<Rightarrow> world \<Rightarrow> world" where
  "setUniversity v w = emit (SetUniversity v) (w\<lparr>st := (st w)\<lparr>university := v\<rparr>\<rparr>)"

definition setExamStats :: "jsval \<Rightarrow> world \<Rightarrow> world" where
  "setExamStats v w = emit (SetExamStats v) (w\<lparr>st := (st w)\<lparr>examStats := v\<rparr>\<rparr>)"

definition setLoading :: "bool \<Rightarrow> world \<Rightarrow> world" where
  "setLoading b w = emit (SetLoading b) (w\<lparr>st := (st w)\<lparr>loading := b\<rparr>\<rparr>)"

definition setSidebarOpen :: "bool \<Rightarrow> world \<Rightarrow> world" where
  "setSidebarOpen b w = emit (SetSidebarOpen b) (w\<lparr>st := (st w)\<lparr>sidebarOpen := b\<rparr>\<rparr>)"

subsection \<open>Notifications, console, storage, router, HTTP client\<close>

text \<open>
  \<^verbatim>\<open>toast.loading\<close>, \<^verbatim>\<open>toast.success\<close> and \<^verbatim>\<open>toast.error\<close> put one more toast on screen;
  \<^verbatim>\<open>toast.dismiss()\<close>, called without an id, takes every toast off.
\<close>

definition toast_show :: "toast_kind \<Rightarrow> string \<Rightarrow> world \<Rightarrow> world" where
  "toast_show k m w = emit (Toast k m) (w\<lparr>toasts := toasts w @ [(k, m)]\<rparr>)"

definition toast_dismiss :: "world \<Rightarrow> world" where
  "toast_dismiss w = emit ToastDismiss (w\<lparr>toasts := []\<rparr>)"

definition console_error :: "string \<Rightarrow> jsval \<Rightarrow> world \<Rightarrow> world" where
  "console_error m e w = emit (ConsoleError m e) w"

definition removeItem :: "string \<Rightarrow> world \<Rightarrow> world" where
  "removeItem k w = emit (RemoveItem k) (w\<lparr>localStorage := (localStorage w)(k := None)\<rparr>)"

definition navigate :: "string \<Rightarrow> world \<Rightarrow> world" where
  "navigate p w = emit (Navigate p) (w\<lparr>location := p\<rparr>)"

text \<open>\<^verbatim>\<open>axiosInstance.get(url)\<close> up to the \<^verbatim>\<open>await\<close>: the request leaves and is in flight.\<close>

definition http_get :: "string \<Rightarrow> world \<Rightarrow> world" where
  "http_get url w = emit (HttpGet url) (w\<lparr>pending := pending w @ [url]\<rparr>)"

text \<open>
  What the awaited promise settles to. The HTTP client is not part of the component:
  its answer is a parameter. A fulfilled promise carries the response body
  (\<^verbatim>\<open>response.data\<close>), a rejected one the reason.
\<close>

datatype outcome = Resolved jsval | Rejected jsval


section \<open>Statements that may throw\<close>

datatype 'a completion = Normal 'a | Throw jsval

type_synonym 'a js = "world \<Rightarrow> 'a completion \<times> world"

definition lift :: "(world \<Rightarrow> world) \<Rightarrow> unit js" where
  "lift f w = (Normal (), f w)"

definition bind :: "'a js \<Rightarrow> ('a \<Rightarrow> 'b js) \<Rightarrow> 'b js" where
  "bind m f w = (case m w of (Normal x, w') \<Rightarrow> f x w' | (Throw e, w') \<Rightarrow> (Throw e, w'))"

definition seq :: "unit js \<Rightarrow> unit js \<Rightarrow> unit js" where
  "seq a b = bind a (\<lambda>_. b)"

text \<open>
  \<^verbatim>\<open>try { body } catch (e) { handler } finally { fin }\<close>: the handler runs when the body
  throws, the finaliser always runs, and what is thrown by the handler or the finaliser
  leaves the statement.
\<close>

definition try_catch_finally :: "unit js \<Rightarrow> (jsval \<Rightarrow> unit js) \<Rightarrow> unit js \<Rightarrow> unit js" where
  "try_catch_finally body handler fin w =
     (let (r1, w1) = body w;
          (r2, w2) = (case r1 of Normal u \<Rightarrow> (Normal u, w1) | Throw e \<Rightarrow> handler e w1);
          (r3, w3) = fin w2
      in (case r3 of Normal u \<Rightarrow> (r2, w3) | Throw e \<Rightarrow> (Throw e, w3)))"

text \<open>
  The rest of \<^verbatim>\<open>const response = await axiosInstance.get(url)\<close>: the request is no
  longer in flight, and a rejection is thrown at the \<^verbatim>\<open>await\<close>.
\<close>

definition await_get :: "string \<Rightarrow> outcome \<Rightarrow> jsval js" where
  "await_get url oc w =
     (let w' = w\<lparr>pending := remove1 url (pending w)\<rparr>
      in case oc of Resolved d \<Rightarrow> (Normal d, w') | Rejected e \<Rightarrow> (Throw e, w'))"


section \<open>The two fetch operations\<close>

text \<open>
  An \<^verbatim>\<open>async\<close> function runs in two turns of the event loop: from the call to the
  \<^verbatim>\<open>await\<close>, and from the settling of the awaited promise to the end. The first turn
  lies inside the \<^verbatim>\<open>try\<close> as well, and none of its three statements throws.
\<close>

definition fetchUniversityData_start :: "world \<Rightarrow> world" where
  "fetchUniversityData_start w =
     http_get ''/university/profile''
       (toast_show TLoading ''Fetching university data...''
         (setLoading True w))"

definition fetchUniversityData_resume :: "outcome \<Rightarrow> unit js" where
  "fetchUniversityData_resume oc =
     try_catch_finally
       (bind (await_get ''/university/profile'' oc) (\<lambda>response_data.
          seq (lift (setUniversity response_data))
         (seq (lift toast_dismiss)
              (lift (toast_show TSuccess ''University data loaded!'')))))
       (\<lambda>error.
          seq (lift (console_error ''Error fetching university data:'' error))
         (seq (lift toast_dismiss)
              (lift (toast_show TError ''Failed to load university data''))))
       (lift (setLoading False))"

definition fetchUniversityData :: "outcome \<Rightarrow> unit js" where
  "fetchUniversityData oc w = fetchUniversityData_resume oc (fetchUniversityData_start w)"

definition fetchExamStats_start :: "world \<Rightarrow> world" where
  "fetchExamStats_start w =
     http_get ''/university/exam/stats''
       (toast_show TLoading ''Fetching exam statistics...''
         (setLoading True w))"

definition fetchExamStats_resume :: "outcome \<Rightarrow> unit js" where
  "fetchExamStats_resume oc =
     try_catch_finally
       (bind (await_get ''/university/exam/stats'' oc) (\<lambda>response_data.
          seq (lift (setExamStats response_data))
         (seq (lift toast_dismiss)
              (lift (toast_show TSuccess ''Exam stats loaded!'')))))
       (\<lambda>error.
          seq (lift (console_error ''Error fetching exam stats:'' error))
         (seq (lift toast_dismiss)
              (lift (toast_show TError ''Failed to load exam stats''))))
       (lift (setLoading False))"

definition fetchExamStats :: "outcome \<Rightarrow> unit js" where
  "fetchExamStats oc w = fetchExamStats_resume oc (fetchExamStats_start w)"

text \<open>The mount effect calls both, one after the other; each returns at its \<^verbatim>\<open>await\<close>.\<close>

definition mount :: "world \<Rightarrow> world" where
  "mount w = fetchExamStats_start (fetchUniversityData_start w)"

text \<open>The two operations by name, for statements about either.\<close>

datatype fetch = Profile | Stats

fun url_of :: "fetch \<Rightarrow> string" where
  "url_of Profile = ''/university/profile''"
| "url_of Stats = ''/university/exam/stats''"

fun other :: "fetch \<Rightarrow> fetch" where
  "other Profile = Stats"
| "other Stats = Profile"

fun fetch_start :: "fetch \<Rightarrow> world \<Rightarrow> world" where
  "fetch_start Profile = fetchUniversityData_start"
| "fetch_start Stats = fetchExamStats_start"

fun fetch_resume :: "fetch \<Rightarrow> outcome \<Rightarrow> unit js" where
  "fetch_resume Profile = fetchUniversityData_resume"
| "fetch_resume Stats = fetchExamStats_resume"

fun fetch_run :: "fetch \<Rightarrow> outcome \<Rightarrow> unit js" where
  "fetch_run Profile = fetchUniversityData"
| "fetch_run Stats = fetchExamStats"

text \<open>The slice of the state a fetch operation writes on success.\<close>

fun slice :: "fetch \<Rightarrow> view_state \<Rightarrow> jsval" where
  "slice Profile s = university s"
| "slice Stats s = examStats s"

fun loading_message :: "fetch \<Rightarrow> string" where
  "loading_message Profile = ''Fetching university data...''"
| "loading_message Stats = ''Fetching exam statistics...''"

fun success_message :: "fetch \<Rightarrow> string" where
  "success_message Profile = ''University data loaded!''"
| "success_message Stats = ''Exam stats loaded!''"

fun error_message :: "fetch \<Rightarrow> string" where
  "error_message Profile = ''Failed to load university data''"
| "error_message Stats = ''Failed to load exam stats''"


section \<open>Logout and the sidebar toggle\<close>

definition handleLogout :: "world \<Rightarrow> world" where
  "handleLogout w =
     navigate ''/login''
       (toast_show TSuccess ''Logged out successfully!''
         (removeItem ''token'' w))"

text \<open>The click handler of the toggle button: \<^verbatim>\<open>setSidebarOpen(!sidebarOpen)\<close>.\<close>

definition toggleSidebar :: "world \<Rightarrow> world" where
  "toggleSidebar w = setSidebarOpen (\<not> sidebarOpen (st w)) w"


section \<open>What is rendered\<close>

record dataset =
  label :: string
  data :: "jsval list"
  backgroundColor :: "string list"
  borderColor :: "string list"
  borderWidth :: nat

record chart_data =
  labels :: "string list"
  datasets :: "dataset list"

definition chartData :: "jsval \<Rightarrow> error + chart_data" where
  "chartData stats =
     ebind (get_prop stats ''totalExams'') (\<lambda>total.
     ebind (get_prop stats ''studentsAssigned'') (\<lambda>assigned.
     ebind (get_prop stats ''studentsAttended'') (\<lambda>attended.
       Inr \<lparr> labels = [''Total Exams'', ''Students Assigned'', ''Students Attended''],
             datasets =
               [\<lparr> label = ''Exam Statistics'',
                   data = [total, assigned, attended],
                   backgroundColor = [''#10B981'', ''#FBBF24'', ''#3B82F6''],
                   borderColor = [''#059669'', ''#F59E0B'', ''#2563EB''],
                   borderWidth = 1 \<rparr>] \<rparr>)))"

record chart_options =
  responsive :: bool
  legend_position :: string
  title_display :: bool
  title_text :: string
  title_font_size :: nat
  title_font_weight :: string
  y_beginAtZero :: bool
  y_title_display :: bool
  y_title_text :: string

definition chartOptions :: chart_options where
  "chartOptions =
     \<lparr> responsive = True,
       legend_position = ''top'',
       title_display = True,
       title_text = ''Exam Statistics Overview'',
       title_font_size = 18,
       title_font_weight = ''bold'',
       y_beginAtZero = True,
       y_title_display = True,
       y_title_text = ''Count'' \<rparr>"

text \<open>
  A value placed between the tags of an element, as in \<^verbatim>\<open><h2>{v}</h2>\<close>. React renders a
  string or a number as text, renders nothing for a boolean, \<^verbatim>\<open>null\<close> or \<^verbatim>\<open>undefined\<close>,
  renders the elements of an array one after the other, and throws on an object
  (objects are not valid as a React child), which takes the whole dashboard down.
\<close>

fun valid_child :: "jsval \<Rightarrow> bool" where
  "valid_child (JObj kvs) = False"
| "valid_child (JArr xs) = list_all valid_child xs"
| "valid_child v = True"

definition react_child :: "jsval \<Rightarrow> error + jsval" where
  "react_child v = (if valid_child v then Inr v else Inl InvalidChild)"

text \<open>
  The profile card: the logo source, the heading and the paragraph when \<^verbatim>\<open>university\<close>
  is truthy, the placeholder paragraph otherwise. The expressions of the markup are
  evaluated first, the children are rendered afterwards; the logo source is an
  attribute, not a child.
\<close>

datatype profile_card = ProfileFields jsval jsval jsval | Placeholder string

definition profileCard :: "jsval \<Rightarrow> error + profile_card" where
  "profileCard u =
     (if truthy u then
        ebind (get_prop u ''universityLogo'') (\<lambda>logo.
        ebind (get_prop u ''universityName'') (\<lambda>name.
        ebind (get_prop u ''universityEmail'') (\<lambda>email.
        ebind (react_child name) (\<lambda>heading.
        ebind (react_child email) (\<lambda>paragraph.
          Inr (ProfileFields
                 (js_or (get_prop_opt logo ''secure_url'') (JStr ''https://via.placeholder.com/64''))
                 heading paragraph))))))
      else Inr (Placeholder ''Loading university data...''))"

definition sidebarClass :: "bool \<Rightarrow> string" where
  "sidebarClass opened = (if opened then ''translate-x-0'' else ''-translate-x-full md:translate-x-0'')"

record rendering =
  sidebar :: string
  card :: profile_card
  statCards :: "jsval list"
  chart :: chart_data
  options :: chart_options

text \<open>
  One evaluation of the component's body and the rendering of what it returns: the
  chart input first, then the markup from top to bottom, the three counters of the
  statistics cards being children like the name and the e-mail address of the profile
  card. The \<^verbatim>\<open>loading\<close> slice is read nowhere.
\<close>

definition render :: "view_state \<Rightarrow> error + rendering" where
  "render s =
     ebind (chartData (examStats s)) (\<lambda>c.
     ebind (profileCard (university s)) (\<lambda>p.
     ebind (get_prop (examStats s) ''totalExams'') (\<lambda>total.
     ebind (get_prop (examStats s) ''studentsAssigned'') (\<lambda>assigned.
     ebind (get_prop (examStats s) ''studentsAttended'') (\<lambda>attended.
     ebind (react_child total) (\<lambda>card1.
     ebind (react_child assigned) (\<lambda>card2.
     ebind (react_child attended) (\<lambda>card3.
       Inr \<lparr> sidebar = sidebarClass (sidebarOpen s),
             card = p,
             statCards = [card1, card2, card3],
             chart = c,
             options = chartOptions \<rparr>))))))))"


section \<open>Observations used in the statements\<close>

text \<open>A logged-in session that has just opened the dashboard, before the mount effect.\<close>

definition session_world :: world where
  "session_world = initial_world [''token'' \<mapsto> ''session-token''] ''/university/dashboard''"

fun is_notification :: "event \<Rightarrow> bool" where
  "is_notification (Toast k m) = True"
| "is_notification ToastDismiss = True"
| "is_notification e = False"

fun is_error_toast :: "event \<Rightarrow> bool" where
  "is_error_toast (Toast TError m) = True"
| "is_error_toast e = False"

fun is_success_toast :: "event \<Rightarrow> bool" where
  "is_success_toast (Toast TSuccess m) = True"
| "is_success_toast e = False"

fun is_request :: "event \<Rightarrow> bool" where
  "is_request (HttpGet u) = True"
| "is_request e = False"

text \<open>The setter a fetch operation calls on success, and the text it logs on failure.\<close>

fun set_slice :: "fetch \<Rightarrow> jsval \<Rightarrow> event" where
  "set_slice Profile d = SetUniversity d"
| "set_slice Stats d = SetExamStats d"

fun console_message :: "fetch \<Rightarrow> string" where
  "console_message Profile = ''Error fetching university data:''"
| "console_message Stats = ''Error fetching exam stats:''"

text \<open>The values of the chart's bars: the \<^verbatim>\<open>data\<close> array of its one dataset.\<close>

definition chartValues :: "jsval \<Rightarrow> error + jsval list" where
  "chartValues stats = ebind (chartData stats) (\<lambda>c. Inr (concat (map data (datasets c))))"



section \<open>Shared facts\<close>

lemmas effect_defs =
  emit_def setUniversity_def setExamStats_def setLoading_def setSidebarOpen_def
  toast_show_def toast_dismiss_def console_error_def removeItem_def navigate_def http_get_def

lemmas control_defs =
  lift_def bind_def seq_def try_catch_finally_def await_get_def

lemmas fetch_defs =
  fetchUniversityData_def fetchUniversityData_start_def fetchUniversityData_resume_def
  fetchExamStats_def fetchExamStats_start_def fetchExamStats_resume_def

lemma ebind_Inr: "ebind (Inr x) f = f x"
  by (simp add: ebind_def)

lemma ebind_Inl: "ebind (Inl e) f = Inl e"
  by (simp add: ebind_def)

lemma get_prop_ok: "\<not> nullish v \<Longrightarrow> get_prop v k = Inr (prop_value v k)"
  by (simp add: get_prop_def)

lemma get_prop_nullish: "nullish v \<Longrightarrow> get_prop v k = Inl TypeError"
  by (simp add: get_prop_def)


subsection \<open>The first turn of a fetch operation\<close>

lemma fetch_start_world:
  "fetch_start f w =
     w\<lparr> st := (st w)\<lparr>loading := True\<rparr>,
        toasts := toasts w @ [(TLoading, loading_message f)],
        pending := pending w @ [url_of f],
        trace := trace w @
          [SetLoading True, Toast TLoading (loading_message f), HttpGet (url_of f)] \<rparr>"
  by (cases f) (simp_all add: fetch_defs effect_defs)

subsection \<open>The second turn, on either outcome\<close>

lemma fetch_resume_resolved:
  "fetch_resume f (Resolved d) w =
     (Normal (),
      w\<lparr> st := (case f of Profile \<Rightarrow> (st w)\<lparr>university := d, loading := False\<rparr>
                         | Stats \<Rightarrow> (st w)\<lparr>examStats := d, loading := False\<rparr>),
         toasts := [(TSuccess, success_message f)],
         pending := remove1 (url_of f) (pending w),
         trace := trace w @
           [set_slice f d, ToastDismiss, Toast TSuccess (success_message f),
            SetLoading False] \<rparr>)"
  by (cases f) (simp_all add: fetch_defs control_defs effect_defs)

lemma fetch_resume_rejected:
  "fetch_resume f (Rejected e) w =
     (Normal (),
      w\<lparr> st := (st w)\<lparr>loading := False\<rparr>,
         toasts := [(TError, error_message f)],
         pending := remove1 (url_of f) (pending w),
         trace := trace w @
           [ConsoleError (console_message f) e, ToastDismiss,
            Toast TError (error_message f), SetLoading False] \<rparr>)"
  by (cases f) (simp_all add: fetch_defs control_defs effect_defs)

subsection \<open>A whole run of a fetch operation\<close>

lemma fetch_run_split: "fetch_run f oc w = fetch_resume f oc (fetch_start f w)"
  by (cases f) (simp_all add: fetchUniversityData_def fetchExamStats_def)

lemma fetch_run_emitted:
  "emitted w (snd (fetch_run f oc w)) =
     [SetLoading True, Toast TLoading (loading_message f), HttpGet (url_of f)] @
     (case oc of
        Resolved d \<Rightarrow> [set_slice f d, ToastDismiss, Toast TSuccess (success_message f)]
      | Rejected e \<Rightarrow>
          [ConsoleError (console_message f) e, ToastDismiss, Toast TError (error_message f)]) @
     [SetLoading False]"
  by (cases oc) (simp_all add: fetch_run_split fetch_resume_resolved fetch_resume_rejected
       fetch_start_world emitted_def)

lemma fetch_run_completes: "fst (fetch_run f oc w) = Normal ()"
  by (cases oc) (simp_all add: fetch_run_split fetch_resume_resolved fetch_resume_rejected)

lemma fetch_run_toasts:
  "toasts (snd (fetch_run f oc w)) =
     [case oc of Resolved d \<Rightarrow> (TSuccess, success_message f)
               | Rejected e \<Rightarrow> (TError, error_message f)]"
  by (cases oc) (simp_all add: fetch_run_split fetch_resume_resolved fetch_resume_rejected)

lemma fetch_run_rejected_state:
  "st (snd (fetch_run f (Rejected e) w)) = (st w)\<lparr>loading := False\<rparr>"
  by (simp add: fetch_run_split fetch_resume_rejected fetch_start_world)


lemma render_ignores_loading: "render (s\<lparr>loading := b\<rparr>) = render s"
  by (simp add: render_def)


lemma fetch_resume_loading: "loading (st (snd (fetch_resume f oc w))) = False"
  by (cases oc) (simp_all add: fetch_resume_resolved fetch_resume_rejected split: fetch.split)

lemma fetch_resume_pending:
  "pending (snd (fetch_resume f oc w)) = remove1 (url_of f) (pending w)"
  by (cases oc) (simp_all add: fetch_resume_resolved fetch_resume_rejected)

lemma stats_resolved_slice: "examStats (st (snd (fetchExamStats (Resolved d) w))) = d"
  using fetch_resume_resolved [of Stats d "fetch_start Stats w"]
  by (simp add: fetchExamStats_def)

lemma set_slice_kind:
  "\<not> is_notification (set_slice f d)"
  "\<not> is_request (set_slice f d)"
  "\<not> is_error_toast (set_slice f d)"
  "\<not> is_success_toast (set_slice f d)"
  by (cases f; simp)+

lemma url_of_other: "url_of (other f) \<noteq> url_of f"
  by (cases f) simp_all

subsection \<open>The mount effect\<close>

lemma mount_world:
  "mount w =
     w\<lparr> st := (st w)\<lparr>loading := True\<rparr>,
        toasts := toasts w @ [(TLoading, ''Fetching university data...''),
                              (TLoading, ''Fetching exam statistics...'')],
        pending := pending w @ [''/university/profile'', ''/university/exam/stats''],
        trace := trace w @
          [SetLoading True, Toast TLoading ''Fetching university data...'',
           HttpGet ''/university/profile'',
           SetLoading True, Toast TLoading ''Fetching exam statistics...'',
           HttpGet ''/university/exam/stats''] \<rparr>"
  by (simp add: mount_def fetch_defs effect_defs)

subsection \<open>The chart's values\<close>

lemma chartValues_ok:
  "\<not> nullish stats \<Longrightarrow>
   chartValues stats =
     Inr [prop_value stats ''totalExams'', prop_value stats ''studentsAssigned'',
          prop_value stats ''studentsAttended'']"
  by (simp add: chartValues_def chartData_def get_prop_ok ebind_Inr)


section \<open>The profile fetch on success\<close>




text \<open>
  A truthy body alone does not give the profile fields either: with the body
  \<^verbatim>\<open>{universityName: {}}\<close> the heading's child is an object, and the render fails.
\<close>

lemma profile_object_name_not_rendered:
  "university (st (snd (fetchUniversityData
     (Resolved (JObj [(''universityName'', JObj [])])) session_world))) =
     JObj [(''universityName'', JObj [])] \<and>
   profileCard (university (st (snd (fetchUniversityData
     (Resolved (JObj [(''universityName'', JObj [])])) session_world)))) = Inl InvalidChild"
  using fetch_resume_resolved
    [of Profile "JObj [(''universityName'', JObj [])]" "fetch_start Profile session_world"]
  by (simp add: fetchUniversityData_def profileCard_def get_prop_def react_child_def ebind_def)


section \<open>The chart input\<close>

text \<open>
  Claim C2, as the code has it. For every value of \<^verbatim>\<open>examStats\<close> other than \<^verbatim>\<open>null\<close> and
  \<^verbatim>\<open>undefined\<close>, the chart input has the three categories Total Exams, Students
  Assigned, Students Attended in this order, one dataset whose values are the fields
  \<^verbatim>\<open>totalExams\<close>, \<^verbatim>\<open>studentsAssigned\<close>, \<^verbatim>\<open>studentsAttended\<close> of \<^verbatim>\<open>examStats\<close> in the same
  order, the fixed fill and border colour of each category, and the chart has its fixed
  title and axis label. The input is a function of \<^verbatim>\<open>examStats\<close> alone.
\<close>

theorem C2_chart_input:
  assumes "\<not> nullish stats"
  shows "chartData stats =
           Inr \<lparr> labels = [''Total Exams'', ''Students Assigned'', ''Students Attended''],
                 datasets =
                   [\<lparr> label = ''Exam Statistics'',
                       data = [prop_value stats ''totalExams'',
                               prop_value stats ''studentsAssigned'',
                               prop_value stats ''studentsAttended''],
                       backgroundColor = [''#10B981'', ''#FBBF24'', ''#3B82F6''],
                       borderColor = [''#059669'', ''#F59E0B'', ''#2563EB''],
                       borderWidth = 1 \<rparr>] \<rparr> \<and>
         chartValues stats =
           Inr [prop_value stats ''totalExams'',
                prop_value stats ''studentsAssigned'',
                prop_value stats ''studentsAttended''] \<and>
         title_text chartOptions = ''Exam Statistics Overview'' \<and>
         y_title_text chartOptions = ''Count''"
  using assms by (simp add: chartData_def chartValues_def get_prop_ok ebind_Inr chartOptions_def)

text \<open>
  The theorem at \<^verbatim>\<open>{totalExams: 5, studentsAssigned: 40, studentsAttended: 38}\<close>: the
  bars carry 5, 40 and 38.
\<close>

theorem C2_chart_input_witness:
  "\<not> nullish (JObj [(''totalExams'', JNum 5), (''studentsAssigned'', JNum 40),
                     (''studentsAttended'', JNum 38)]) \<and>
   chartValues (JObj [(''totalExams'', JNum 5), (''studentsAssigned'', JNum 40),
                      (''studentsAttended'', JNum 38)]) = Inr [JNum 5, JNum 40, JNum 38]"
  using C2_chart_input
    [of "JObj [(''totalExams'', JNum 5), (''studentsAssigned'', JNum 40),
               (''studentsAttended'', JNum 38)]"]
  by simp

text \<open>
  The claim as written fails at the value \<^verbatim>\<open>null\<close>, which a successful statistics
  response with the body \<^verbatim>\<open>null\<close> stores: reading \<^verbatim>\<open>examStats.totalExams\<close> throws, and
  there is no chart input.
\<close>

theorem C2_null_stats_counterexample:
  "examStats (st (snd (fetchExamStats (Resolved JNull) session_world))) = JNull \<and>
   chartData (examStats (st (snd (fetchExamStats (Resolved JNull) session_world))))
     = Inl TypeError"
  by (simp add: stats_resolved_slice chartData_def get_prop_def ebind_def)


section \<open>A fetch whose request fails\<close>

text \<open>
  Claim C3. When the request of either fetch operation is rejected, the operation still
  completes normally (the rejection is caught and not thrown again); the state
  afterwards is the state before with \<^verbatim>\<open>loading\<close> set to false, so the operation's own
  slice (\<^verbatim>\<open>university\<close> or \<^verbatim>\<open>examStats\<close>) is unchanged and nothing about the failure is
  stored; exactly one error notification is emitted; the toasts on screen afterwards
  are that error notification alone, so no loading notification is left; and what the
  component renders is what it rendered before the fetch ran.
\<close>

theorem C3_failed_fetch:
  "fst (fetch_run f (Rejected e) w) = Normal () \<and>
   st (snd (fetch_run f (Rejected e) w)) = (st w)\<lparr>loading := False\<rparr> \<and>
   slice f (st (snd (fetch_run f (Rejected e) w))) = slice f (st w) \<and>
   filter is_error_toast (emitted w (snd (fetch_run f (Rejected e) w)))
     = [Toast TError (error_message f)] \<and>
   toasts (snd (fetch_run f (Rejected e) w)) = [(TError, error_message f)] \<and>
   render (st (snd (fetch_run f (Rejected e) w))) = render (st w)"
proof -
  have s: "st (snd (fetch_run f (Rejected e) w)) = (st w)\<lparr>loading := False\<rparr>"
    by (rule fetch_run_rejected_state)
  have sl: "slice f ((st w)\<lparr>loading := False\<rparr>) = slice f (st w)"
    by (cases f) simp_all
  have n: "filter is_error_toast (emitted w (snd (fetch_run f (Rejected e) w)))
             = [Toast TError (error_message f)]"
    by (simp add: fetch_run_emitted)
  have t: "toasts (snd (fetch_run f (Rejected e) w)) = [(TError, error_message f)]"
    by (simp add: fetch_run_toasts)
  show ?thesis
    by (simp only: s sl n t fetch_run_completes render_ignores_loading simp_thms)
qed


section \<open>The loading notification and the loading flag\<close>




section \<open>The order of the notifications\<close>

text \<open>
  Claim C5. The notification events of a run of either fetch operation are exactly
  three, in this order: the loading notification, the dismissal of all notifications,
  and then the success notification when the request was fulfilled or the error
  notification when it was rejected.
\<close>

theorem C5_notification_order:
  "filter is_notification (emitted w (snd (fetch_run f oc w))) =
     [Toast TLoading (loading_message f),
      ToastDismiss,
      (case oc of Resolved d \<Rightarrow> Toast TSuccess (success_message f)
                | Rejected e \<Rightarrow> Toast TError (error_message f))]"
  by (cases oc) (simp_all add: fetch_run_emitted set_slice_kind)


section \<open>Logout\<close>

text \<open>
  Claim C6. The logout action has exactly three effects, in this order: it removes the
  local-storage entry \<^verbatim>\<open>token\<close>, emits one success notification, and navigates to
  \<^verbatim>\<open>/login\<close>. Afterwards the entry is gone, every other entry is as before, the current
  path is \<^verbatim>\<open>/login\<close>, and the component's state is untouched.
\<close>

theorem C6_logout:
  "emitted w (handleLogout w)
     = [RemoveItem ''token'', Toast TSuccess ''Logged out successfully!'', Navigate ''/login''] \<and>
   localStorage (handleLogout w) = (localStorage w)(''token'' := None) \<and>
   localStorage (handleLogout w) ''token'' = None \<and>
   filter is_success_toast (emitted w (handleLogout w))
     = [Toast TSuccess ''Logged out successfully!''] \<and>
   location (handleLogout w) = ''/login'' \<and>
   st (handleLogout w) = st w"
  by (simp add: handleLogout_def effect_defs emitted_def)


section \<open>The statistics fetch on success\<close>

text \<open>
  Claim C7. After a successful statistics response \<^verbatim>\<open>examStats\<close> is the response body,
  whatever the state was before. When the body is an object without the property
  \<open>k\<close>, the chart's values are the body's three fields with \<^verbatim>\<open>undefined\<close> for \<open>k\<close>:
  nothing of the previous \<^verbatim>\<open>examStats\<close> is kept.
\<close>

theorem C7_stats_replaced_wholesale:
  assumes "map_of kvs k = None"
  shows "examStats (st (snd (fetchExamStats (Resolved d) w))) = d \<and>
         chartValues (examStats (st (snd (fetchExamStats (Resolved (JObj kvs)) w)))) =
           Inr (map (\<lambda>n. if n = k then JUndefined else prop_value (JObj kvs) n)
                  [''totalExams'', ''studentsAssigned'', ''studentsAttended''])"
  using assms by (simp add: stats_resolved_slice chartValues_ok)

text \<open>
  The theorem after the statistics 5, 40, 38 have been loaded, at the next response
  \<^verbatim>\<open>{totalExams: 7}\<close>: the bars carry 7, \<^verbatim>\<open>undefined\<close>, \<^verbatim>\<open>undefined\<close>, not 40 and 38.
\<close>

theorem C7_stats_replaced_wholesale_witness:
  "map_of [(''totalExams'', JNum 7)] ''studentsAttended'' = None \<and>
   examStats (st (snd (fetchExamStats
     (Resolved (JObj [(''totalExams'', JNum 5), (''studentsAssigned'', JNum 40),
                      (''studentsAttended'', JNum 38)])) session_world))) =
     JObj [(''totalExams'', JNum 5), (''studentsAssigned'', JNum 40),
           (''studentsAttended'', JNum 38)] \<and>
   chartValues (examStats (st (snd (fetchExamStats (Resolved (JObj [(''totalExams'', JNum 7)]))
     (snd (fetchExamStats
       (Resolved (JObj [(''totalExams'', JNum 5), (''studentsAssigned'', JNum 40),
                        (''studentsAttended'', JNum 38)])) session_world)))))) =
     Inr [JNum 7, JUndefined, JUndefined]"
  using C7_stats_replaced_wholesale
    [of "[(''totalExams'', JNum 7)]" "''studentsAttended''"
        "JObj [(''totalExams'', JNum 5), (''studentsAssigned'', JNum 40),
               (''studentsAttended'', JNum 38)]"
        "snd (fetchExamStats
           (Resolved (JObj [(''totalExams'', JNum 5), (''studentsAssigned'', JNum 40),
                            (''studentsAttended'', JNum 38)])) session_world)"]
        stats_resolved_slice
  by simp


section \<open>The sidebar toggle\<close>

text \<open>
  Claim C8. Toggling the navigation panel twice gives back the state it started from.
  One toggle negates \<^verbatim>\<open>sidebarOpen\<close> and leaves \<^verbatim>\<open>university\<close>, \<^verbatim>\<open>examStats\<close> and
  \<^verbatim>\<open>loading\<close> alone; its only effect is the call of the setter, so it sends no request,
  and the requests in flight, the toasts, the local storage and the current path are as
  before.
\<close>

theorem C8_toggle_involution:
  "st (toggleSidebar (toggleSidebar w)) = st w \<and>
   sidebarOpen (st (toggleSidebar w)) = (\<not> sidebarOpen (st w)) \<and>
   university (st (toggleSidebar w)) = university (st w) \<and>
   examStats (st (toggleSidebar w)) = examStats (st w) \<and>
   loading (st (toggleSidebar w)) = loading (st w) \<and>
   emitted w (toggleSidebar w) = [SetSidebarOpen (\<not> sidebarOpen (st w))] \<and>
   filter is_request (emitted w (toggleSidebar w)) = [] \<and>
   pending (toggleSidebar w) = pending w \<and>
   toasts (toggleSidebar w) = toasts w \<and>
   localStorage (toggleSidebar w) = localStorage w \<and>
   location (toggleSidebar w) = location w"
  by (simp add: toggleSidebar_def setSidebarOpen_def emit_def emitted_def)


section \<open>The shared loading flag\<close>

text \<open>
  Claim C9. Starting either fetch operation sets \<^verbatim>\<open>loading\<close> and puts its request in
  flight, and after the mount effect \<^verbatim>\<open>loading\<close> is true with both requests in flight.
  Whenever one fetch operation finishes, on either outcome, in a world where the
  request of the other one is still in flight, \<^verbatim>\<open>loading\<close> is false afterwards although
  that other request is still in flight.
\<close>

theorem C9_loading_race:
  assumes "url_of (other f) \<in> set (pending w)"
  shows "loading (st (fetch_start g v)) = True \<and>
         url_of g \<in> set (pending (fetch_start g v)) \<and>
         loading (st (mount v)) = True \<and>
         pending (mount v) = pending v @ [''/university/profile'', ''/university/exam/stats''] \<and>
         loading (st (snd (fetch_resume f oc w))) = False \<and>
         url_of (other f) \<in> set (pending (snd (fetch_resume f oc w)))"
proof -
  have "url_of (other f) \<in> set (remove1 (url_of f) (pending w))"
    using assms url_of_other [of f] by (simp add: in_set_remove1)
  then show ?thesis
    by (simp add: fetch_start_world mount_world fetch_resume_loading fetch_resume_pending)
qed

text \<open>
  The theorem after the mount effect of a fresh session, when the statistics request
  is rejected first: \<^verbatim>\<open>loading\<close> is false and the profile request is still in flight.
\<close>

theorem C9_loading_race_witness:
  "url_of (other Stats) \<in> set (pending (mount session_world)) \<and>
   loading (st (mount session_world)) = True \<and>
   loading (st (snd (fetch_resume Stats (Rejected JUndefined) (mount session_world)))) = False \<and>
   pending (snd (fetch_resume Stats (Rejected JUndefined) (mount session_world)))
     = [''/university/profile'']"
proof -
  have p: "pending (mount session_world) = [''/university/profile'', ''/university/exam/stats'']"
    by (simp add: mount_world session_world_def initial_world_def)
  have h: "url_of (other Stats) \<in> set (pending (mount session_world))"
    by (simp add: p)
  have "pending (snd (fetch_resume Stats (Rejected JUndefined) (mount session_world)))
          = remove1 (url_of Stats) (pending (mount session_world))"
    by (rule fetch_resume_pending)
  then have q: "pending (snd (fetch_resume Stats (Rejected JUndefined) (mount session_world)))
          = [''/university/profile'']"
    by (simp add: p)
  from C9_loading_race [OF h, of Stats session_world "Rejected JUndefined"] h q
  show ?thesis by blast
qed


section \<open>The state on mount\<close>

text \<open>
  Claim C10. Before the mount effect has run, no request is in flight and nothing has
  been emitted; \<^verbatim>\<open>loading\<close> is false, \<^verbatim>\<open>university\<close> is \<^verbatim>\<open>null\<close>, \<^verbatim>\<open>sidebarOpen\<close> is false
  and \<^verbatim>\<open>examStats\<close> has its three fields at zero. The first render therefore shows the
  chart values 0, 0, 0, the three cards at 0, the profile placeholder and the closed
  sidebar.
\<close>

theorem C10_initial_state:
  "st (initial_world store path) = initial_state \<and>
   trace (initial_world store path) = [] \<and>
   pending (initial_world store path) = [] \<and>
   toasts (initial_world store path) = [] \<and>
   loading initial_state = False \<and>
   university initial_state = JNull \<and>
   sidebarOpen initial_state = False \<and>
   examStats initial_state =
     JObj [(''totalExams'', JNum 0), (''studentsAssigned'', JNum 0),
           (''studentsAttended'', JNum 0)] \<and>
   chartValues (examStats initial_state) = Inr [JNum 0, JNum 0, JNum 0] \<and>
   profileCard (university initial_state) = Inr (Placeholder ''Loading university data...'') \<and>
   render initial_state =
     Inr \<lparr> sidebar = ''-translate-x-full md:translate-x-0'',
           card = Placeholder ''Loading university data...'',
           statCards = [JNum 0, JNum 0, JNum 0],
           chart =
             \<lparr> labels = [''Total Exams'', ''Students Assigned'', ''Students Attended''],
               datasets =
                 [\<lparr> label = ''Exam Statistics'',
                     data = [JNum 0, JNum 0, JNum 0],
                     backgroundColor = [''#10B981'', ''#FBBF24'', ''#3B82F6''],
                     borderColor = [''#059669'', ''#F59E0B'', ''#2563EB''],
                     borderWidth = 1 \<rparr>] \<rparr>,
           options = chartOptions \<rparr>"
  by (simp add: initial_world_def initial_state_def chartValues_def chartData_def
        profileCard_def render_def get_prop_def react_child_def ebind_def sidebarClass_def)

end
